theory Spec2Isabelle
  imports Main "HOL-Library.AList"
begin

section \<open>The Fourthwall storefront client (src/lib/fourthwall/index.ts)\<close>

text \<open>
  The module is a thin client of a storefront provider: two transport helpers
  (\<open>fourthwallGet\<close>, \<open>fourthwallPost\<close>) and nine operations built on them.  Each
  operation is an \<open>async\<close> function that awaits one helper call, so it is modelled as a
  function from the world before the call to an outcome and the world after it.  The
  outcome is a sum: \<open>Inl\<close> is the value thrown, \<open>Inr\<close> the value returned.  The world
  records every \<open>fetch\<close> issued and every line written with \<open>console.warn\<close>.

  What the JavaScript platform supplies (\<open>process.env\<close>, the \<open>URL\<close> parser and
  serialiser, \<open>Number.prototype.toString\<close>, \<open>JSON.stringify\<close>, \<open>fetch\<close>) is a field of
  the record \<open>runtime\<close>; the functions imported from \<open>./reshape\<close> are arguments of the
  operations that call them.
\<close>

subsection \<open>Data\<close>

text \<open>
  A payload handed to \<open>fourthwallPost\<close> has the TypeScript type \<open>any\<close>; the payloads
  this module builds are object literals of strings, numbers and arrays.  Numbers are
  modelled by \<open>int\<close>: the module does no arithmetic, and the numbers it handles are
  quantities, limits and status codes.
\<close>

datatype json =
    JNull
  | JBool bool
  | JNum int
  | JStr string
  | JArr "json list"
  | JObj "(string \<times> json) list"

text \<open>What the platform raises: \<open>new URL\<close> and a failed \<open>fetch\<close> raise a
  \<open>TypeError\<close>, an aborted \<open>fetch\<close> an \<open>AbortError\<close>, \<open>Response.json\<close> a
  \<open>SyntaxError\<close>.\<close>

datatype js_exception =
    TypeError string
  | SyntaxError string
  | AbortError string

text \<open>
  What an operation can throw: an exception of the platform that no handler caught, the
  object \<open>{error, url}\<close> thrown by \<open>fourthwallGet\<close> (lines 40-43), or the object
  \<open>{error, url, data}\<close> thrown by \<open>fourthwallPost\<close> (lines 66-70).
\<close>

datatype thrown =
    Uncaught js_exception
  | ErrorUrl js_exception string
  | ErrorUrlData js_exception string json

text \<open>
  \<open>RequestInit\<close>, with the fields this module reads or writes.  An absent field is
  \<open>None\<close> (\<open>[]\<close> for the headers).  The field \<open>body\<close> of the source is \<open>init_body\<close>
  here, since \<open>body\<close> is also a field of the helpers' result, and its field \<open>method\<close>
  is \<open>http_method\<close>, a name that Isabelle does not reserve.
\<close>

record RequestInit =
  http_method :: "string option"
  cache :: "string option"
  headers :: "(string \<times> string) list"
  init_body :: "string option"

text \<open>The two arguments of one call of \<open>fetch\<close>.\<close>

record request =
  req_url :: string
  req_init :: RequestInit

text \<open>
  The \<open>Response\<close> that \<open>fetch\<close> resolves to: its status and what \<open>result.json()\<close>
  resolves to or rejects with.  The helpers are generic in the body type \<open>T\<close>, which is
  the type parameter \<open>'t\<close> here.
\<close>

record 't Response =
  resp_status :: int
  resp_json :: "js_exception + 't"

text \<open>The object \<open>{status, body}\<close> that both helpers return.\<close>

record 't reply =
  status :: int
  body :: 't

text \<open>
  A parsed \<open>URL\<close>: its list of query parameters, which \<open>searchParams.append\<close> extends
  at the end, and every other component (scheme, host, path, fragment) kept as the
  parser produced it.
\<close>

record URL =
  components :: string
  searchParams :: "(string \<times> string) list"

record 't runtime =
  process_env :: "string \<Rightarrow> string option"
  URL_new :: "string \<Rightarrow> js_exception + URL"
  URL_toString :: "URL \<Rightarrow> string"
  Number_toString :: "int \<Rightarrow> string"
  JSON_stringify :: "json \<Rightarrow> string"
  fetch :: "request list \<Rightarrow> request \<Rightarrow> js_exception + 't Response"

text \<open>
  The provider's answer may depend on the requests it has seen, so \<open>fetch\<close> takes
  the requests issued so far as well as the new one.
\<close>

record world =
  fetched :: "request list"
  warned :: "string list"

subsection \<open>Configuration (lines 5-6)\<close>

text \<open>\<open>a || b\<close> on a string that may be undefined: the empty string is falsy.\<close>

definition or_default :: "string option \<Rightarrow> string \<Rightarrow> string" where
  "or_default v d = (case v of None \<Rightarrow> d | Some s \<Rightarrow> if s = [] then d else s)"

definition API_URL :: "'t runtime \<Rightarrow> string" where
  "API_URL rt =
     or_default (process_env rt ''NEXT_PUBLIC_FW_API_URL'')
       ''https://storefront-api.fourthwall.com''"

definition STOREFRONT_TOKEN :: "'t runtime \<Rightarrow> string" where
  "STOREFRONT_TOKEN rt = or_default (process_env rt ''NEXT_PUBLIC_FW_STOREFRONT_TOKEN'') ''''"

subsection \<open>Helpers (lines 11-72)\<close>

text \<open>
  Object spread \<open>{...base, ...extra}\<close> on objects kept as association lists: a key of
  \<open>extra\<close> that \<open>base\<close> has takes the new value in place, any other key is added at
  the end.
\<close>

definition spread :: "(string \<times> string) list \<Rightarrow> (string \<times> string) list \<Rightarrow> (string \<times> string) list" where
  "spread base extra = fold (\<lambda>(k, v). AList.update k v) extra base"

definition empty_init :: RequestInit where
  "empty_init = \<lparr>http_method = None, cache = None, headers = [], init_body = None\<rparr>"

text \<open>
  The values of a query mapping are strings, numbers or undefined (\<open>None\<close>).  The
  mapping is kept as the list of its entries in the order of \<open>Object.keys\<close>.
\<close>

datatype qvalue = QString string | QNumber int

type_synonym query = "(string \<times> qvalue option) list"

text \<open>\<open>query[key]\<close>: undefined when the key is missing or its value is undefined.\<close>

definition index_query :: "query \<Rightarrow> string \<Rightarrow> qvalue option" where
  "index_query query key = (case map_of query key of None \<Rightarrow> None | Some v \<Rightarrow> v)"

definition toString :: "'t runtime \<Rightarrow> qvalue \<Rightarrow> string" where
  "toString rt v = (case v of QString s \<Rightarrow> s | QNumber n \<Rightarrow> Number_toString rt n)"

definition searchParams_append :: "URL \<Rightarrow> string \<Rightarrow> string \<Rightarrow> URL" where
  "searchParams_append u k v = u\<lparr>searchParams := searchParams u @ [(k, v)]\<rparr>"

text \<open>The loop of lines 14-18 over \<open>Object.keys(query)\<close>.\<close>

fun forEach_key :: "'t runtime \<Rightarrow> query \<Rightarrow> string list \<Rightarrow> URL \<Rightarrow> URL" where
  "forEach_key rt query [] constructedUrl = constructedUrl"
| "forEach_key rt query (key # keys) constructedUrl =
     forEach_key rt query keys
       (case index_query query key of
          None \<Rightarrow> constructedUrl
        | Some v \<Rightarrow> searchParams_append constructedUrl key (toString rt v))"

text \<open>
  The arguments of the call of \<open>fetch\<close> in \<open>fourthwallGet\<close> (lines 12-30), from the
  URL that \<open>new URL(url)\<close> produced.  The object literal puts \<open>method\<close> before the spread
  of \<open>options\<close> and \<open>headers\<close> after it: \<open>options\<close> can replace the method, and its
  other fields pass through.
\<close>

definition get_request :: "'t runtime \<Rightarrow> URL \<Rightarrow> query \<Rightarrow> RequestInit \<Rightarrow> request" where
  "get_request rt parsed query options =
     (let constructedUrl =
            searchParams_append (forEach_key rt query (map fst query) parsed)
              ''storefront_token'' (STOREFRONT_TOKEN rt)
      in \<lparr>req_url = URL_toString rt constructedUrl,
          req_init = \<lparr>http_method = Some (case http_method options of None \<Rightarrow> ''GET'' | Some m \<Rightarrow> m),
                      cache = cache options,
                      headers = spread [(''Content-Type'', ''application/json'')] (headers options),
                      init_body = init_body options\<rparr>\<rparr>)"

text \<open>
  \<open>fourthwallGet\<close> (lines 11-45).  \<open>new URL(url)\<close> and the loop run before the
  \<open>try\<close>, so what the parser raises is not wrapped; both awaits are inside it.
\<close>

definition fourthwallGet ::
  "'t runtime \<Rightarrow> string \<Rightarrow> query \<Rightarrow> RequestInit \<Rightarrow> world \<Rightarrow> (thrown + 't reply) \<times> world" where
  "fourthwallGet rt url query options w =
     (case URL_new rt url of
        Inl e \<Rightarrow> (Inl (Uncaught e), w)
      | Inr parsed \<Rightarrow>
          (let req = get_request rt parsed query options;
               w' = w\<lparr>fetched := fetched w @ [req]\<rparr>
           in case fetch rt (fetched w) req of
                Inl e \<Rightarrow> (Inl (ErrorUrl e url), w')
              | Inr result \<Rightarrow>
                  (case resp_json result of
                     Inl e \<Rightarrow> (Inl (ErrorUrl e url), w')
                   | Inr b \<Rightarrow> (Inr \<lparr>status = resp_status result, body = b\<rparr>, w'))))"

text \<open>
  The arguments of the call of \<open>fetch\<close> in \<open>fourthwallPost\<close> (lines 49-57): the token
  is appended to the URL as text, and \<open>body\<close> comes after the spread of \<open>options\<close>.
\<close>

definition post_request :: "'t runtime \<Rightarrow> string \<Rightarrow> json \<Rightarrow> RequestInit \<Rightarrow> request" where
  "post_request rt url data options =
     \<lparr>req_url = url @ ''?storefront_token='' @ STOREFRONT_TOKEN rt,
      req_init = \<lparr>http_method = Some (case http_method options of None \<Rightarrow> ''POST'' | Some m \<Rightarrow> m),
                  cache = cache options,
                  headers = spread [(''Content-Type'', ''application/json'')] (headers options),
                  init_body = Some (JSON_stringify rt data)\<rparr>\<rparr>"

text \<open>\<open>fourthwallPost\<close> (lines 47-72).\<close>

definition fourthwallPost ::
  "'t runtime \<Rightarrow> string \<Rightarrow> json \<Rightarrow> RequestInit \<Rightarrow> world \<Rightarrow> (thrown + 't reply) \<times> world" where
  "fourthwallPost rt url data options w =
     (let req = post_request rt url data options;
          w' = w\<lparr>fetched := fetched w @ [req]\<rparr>
      in case fetch rt (fetched w) req of
           Inl e \<Rightarrow> (Inl (ErrorUrlData e url data), w')
         | Inr result \<Rightarrow>
             (case resp_json result of
                Inl e \<Rightarrow> (Inl (ErrorUrlData e url data), w')
              | Inr b \<Rightarrow> (Inr \<lparr>status = resp_status result, body = b\<rparr>, w')))"

subsection \<open>Collection and product operations (lines 77-117)\<close>

text \<open>
  Modelled from the spec: the types \<open>FourthwallCollection\<close> (\<open>./types\<close>) and
  \<open>Collection\<close> (\<open>lib/types\<close>) are declared outside the sources.  A provider
  collection has at least the fields that \<open>getCollections\<close> reads, all strings; any
  further field is the extension part of the record.  A \<open>Collection\<close> is
  \<open>{handle, title, description}\<close>.
\<close>

record FourthwallCollection =
  slug :: string
  name :: string
  description :: string

record Collection =
  handle :: string
  title :: string
  description :: string

text \<open>
  The body \<open>{results: ...}\<close> of the collections listing, typed as \<open>getCollections\<close>
  declares and reads it.
\<close>

record 'r listing =
  results :: 'r

definition getCollections ::
  "'z FourthwallCollection_scheme list listing runtime \<Rightarrow> world \<Rightarrow> (thrown + Collection list) \<times> world" where
  "getCollections rt w =
     (case fourthwallGet rt (API_URL rt @ ''/api/public/v1.0/collections'') [] empty_init w of
        (Inl e, w') \<Rightarrow> (Inl e, w')
      | (Inr res, w') \<Rightarrow>
          (Inr (map (\<lambda>collection.
                       \<lparr>handle = slug collection,
                        title = name collection,
                        description = FourthwallCollection.description collection\<rparr>)
                  (results (body res))), w'))"

text \<open>
  \<open>getCollectionProducts\<close> (lines 87-108).  The type argument of the helper promises a
  body \<open>{results: FourthwallProduct[]}\<close>, but nothing checks the parsed body against it
  and line 101 tests the field at run time, after the helper has returned and outside
  its \<open>try\<close>.  So the body is kept here as the parsed JSON value it is, and
  \<open>reshapeProducts\<close> is handed whatever the field holds: it returns products or throws.

  \<open>truthy\<close> is what \<open>!v\<close> negates on a parsed value: \<open>null\<close>, \<open>false\<close>, zero and the
  empty string are falsy, every array and object is truthy (a number that is not an
  integer is truthy like any non-zero one).  \<open>results_field\<close> is the value of
  \<open>body.results\<close> on a body that is not \<open>null\<close>: the entry of an object (whose keys
  are distinct), and undefined on an object without it, an array, a string, a number or
  a boolean.  On \<open>null\<close> the read raises a \<open>TypeError\<close>.
\<close>

fun truthy :: "json \<Rightarrow> bool" where
  "truthy JNull = False"
| "truthy (JBool b) = b"
| "truthy (JNum n) = (n \<noteq> 0)"
| "truthy (JStr s) = (s \<noteq> [])"
| "truthy (JArr xs) = True"
| "truthy (JObj kvs) = True"

fun results_field :: "json \<Rightarrow> json option" where
  "results_field (JObj kvs) = map_of kvs ''results''"
| "results_field v = None"

text \<open>
  The argument object is destructured into \<open>collection\<close>, \<open>currency\<close> and the optional
  \<open>limit\<close>; the query literal \<open>{currency, limit}\<close> always has both keys.  Lines 101 and
  107 read the same field of the same body.
\<close>

definition getCollectionProducts ::
  "json runtime \<Rightarrow> (json \<Rightarrow> thrown + 'p list) \<Rightarrow> string \<Rightarrow> string \<Rightarrow> int option \<Rightarrow>
     world \<Rightarrow> (thrown + 'p list) \<times> world" where
  "getCollectionProducts rt reshapeProducts collection currency limit w =
     (case fourthwallGet rt (API_URL rt @ ''/v1/collections/'' @ collection @ ''/products'')
             [(''currency'', Some (QString currency)), (''limit'', map_option QNumber limit)]
             empty_init w of
        (Inl e, w') \<Rightarrow> (Inl e, w')
      | (Inr res, w') \<Rightarrow>
          if body res = JNull
          then (Inl (Uncaught (TypeError ''Cannot read properties of null'')), w')
          else
            (case results_field (body res) of
               None \<Rightarrow>
                 (Inr [], w'\<lparr>warned := warned w' @ [''No collection found for `'' @ collection @ ''`'']\<rparr>)
             | Some v \<Rightarrow>
                 if \<not> truthy v
                 then (Inr [], w'\<lparr>warned := warned w' @ [''No collection found for `'' @ collection @ ''`'']\<rparr>)
                 else (reshapeProducts v, w')))"

text \<open>\<open>getProduct\<close> (lines 113-117); \<open>reshapeProduct\<close> returns a product or undefined.\<close>

definition getProduct ::
  "'fp runtime \<Rightarrow> ('fp \<Rightarrow> 'p option) \<Rightarrow> string \<Rightarrow> string \<Rightarrow> world \<Rightarrow> (thrown + 'p option) \<times> world" where
  "getProduct rt reshapeProduct handle' currency w =
     (case fourthwallGet rt (API_URL rt @ ''/v1/products/'' @ handle')
             [(''currency'', Some (QString currency))] empty_init w of
        (Inl e, w') \<Rightarrow> (Inl e, w')
      | (Inr res, w') \<Rightarrow> (Inr (reshapeProduct (body res)), w'))"

subsection \<open>Cart operations (lines 122-193)\<close>

text \<open>
  The elements of \<open>lines\<close>: \<open>{merchandiseId, quantity}\<close> for \<open>addToCart\<close>, and the same
  with the line's own \<open>id\<close> for \<open>updateCart\<close> (\<open>id_line\<close> here, \<open>id\<close> being the identity
  function of HOL).
\<close>

record line =
  merchandiseId :: string
  quantity :: int

record identified_line = line +
  id_line :: string

text \<open>An operation awaits a helper and goes on with its result; what the helper throws
  is thrown by the operation.\<close>

text \<open>
  \<open>getCart\<close> (lines 122-134).  \<open>!cartId\<close> holds when \<open>cartId\<close> is undefined and when
  it is the empty string.
\<close>

definition getCart ::
  "'fc runtime \<Rightarrow> ('fc \<Rightarrow> 'cart) \<Rightarrow> string option \<Rightarrow> string \<Rightarrow> world \<Rightarrow>
     (thrown + 'cart option) \<times> world" where
  "getCart rt reshapeCart cartId currency w =
     (case cartId of
        None \<Rightarrow> (Inr None, w)
      | Some c \<Rightarrow>
          if c = [] then (Inr None, w)
          else
            (case fourthwallGet rt (API_URL rt @ ''/v1/carts/'' @ c)
                    [(''currency'', Some (QString currency))]
                    (empty_init\<lparr>cache := Some ''no-store''\<rparr>) w of
               (Inl e, w') \<Rightarrow> (Inl e, w')
             | (Inr res, w') \<Rightarrow> (Inr (Some (reshapeCart (body res))), w')))"

definition createCart ::
  "'fc runtime \<Rightarrow> ('fc \<Rightarrow> 'cart) \<Rightarrow> world \<Rightarrow> (thrown + 'cart) \<times> world" where
  "createCart rt reshapeCart w =
     (case fourthwallPost rt (API_URL rt @ ''/v1/carts'') (JObj [(''items'', JArr [])]) empty_init w of
        (Inl e, w') \<Rightarrow> (Inl e, w')
      | (Inr res, w') \<Rightarrow> (Inr (reshapeCart (body res)), w'))"

definition addToCart ::
  "'fc runtime \<Rightarrow> ('fc \<Rightarrow> 'cart) \<Rightarrow> string \<Rightarrow> line list \<Rightarrow> world \<Rightarrow> (thrown + 'cart) \<times> world" where
  "addToCart rt reshapeCart cartId lines w =
     (let items = map (\<lambda>line. JObj [(''variantId'', JStr (merchandiseId line)),
                                     (''quantity'', JNum (quantity line))]) lines
      in case fourthwallPost rt (API_URL rt @ ''/v1/carts/'' @ cartId @ ''/add'')
                (JObj [(''items'', JArr items)]) (empty_init\<lparr>cache := Some ''no-store''\<rparr>) w of
           (Inl e, w') \<Rightarrow> (Inl e, w')
         | (Inr res, w') \<Rightarrow> (Inr (reshapeCart (body res)), w'))"

definition removeFromCart ::
  "'fc runtime \<Rightarrow> ('fc \<Rightarrow> 'cart) \<Rightarrow> string \<Rightarrow> string list \<Rightarrow> world \<Rightarrow> (thrown + 'cart) \<times> world" where
  "removeFromCart rt reshapeCart cartId lineIds w =
     (let items = map (\<lambda>i. JObj [(''variantId'', JStr i)]) lineIds
      in case fourthwallPost rt (API_URL rt @ ''/v1/carts/'' @ cartId @ ''/remove'')
                (JObj [(''items'', JArr items)]) (empty_init\<lparr>cache := Some ''no-store''\<rparr>) w of
           (Inl e, w') \<Rightarrow> (Inl e, w')
         | (Inr res, w') \<Rightarrow> (Inr (reshapeCart (body res)), w'))"

definition updateCart ::
  "'fc runtime \<Rightarrow> ('fc \<Rightarrow> 'cart) \<Rightarrow> string \<Rightarrow> identified_line list \<Rightarrow> world \<Rightarrow> (thrown + 'cart) \<times> world" where
  "updateCart rt reshapeCart cartId lines w =
     (let items = map (\<lambda>line. JObj [(''variantId'', JStr (merchandiseId line)),
                                     (''quantity'', JNum (quantity line))]) lines
      in case fourthwallPost rt (API_URL rt @ ''/v1/carts/'' @ cartId @ ''/change'')
                (JObj [(''items'', JArr items)]) (empty_init\<lparr>cache := Some ''no-store''\<rparr>) w of
           (Inl e, w') \<Rightarrow> (Inl e, w')
         | (Inr res, w') \<Rightarrow> (Inr (reshapeCart (body res)), w'))"

section \<open>Notions used to state the properties\<close>

text \<open>
  The request \<open>req\<close>, issued in the world \<open>w\<close>, fails with the cause \<open>e\<close>: either
  \<open>fetch\<close> rejects with \<open>e\<close> (a network failure), or it resolves and \<open>result.json()\<close>
  rejects with \<open>e\<close> (the body is not JSON).
\<close>

definition fails_with :: "'t runtime \<Rightarrow> world \<Rightarrow> request \<Rightarrow> js_exception \<Rightarrow> bool" where
  "fails_with rt w req e =
     (case fetch rt (fetched w) req of
        Inl e' \<Rightarrow> e' = e
      | Inr result \<Rightarrow> resp_json result = Inl e)"

text \<open>The request resolves to the status \<open>st\<close> and the parsed body \<open>b\<close>.\<close>

definition answers_with :: "'t runtime \<Rightarrow> world \<Rightarrow> request \<Rightarrow> int \<Rightarrow> 't \<Rightarrow> bool" where
  "answers_with rt w req st b =
     (case fetch rt (fetched w) req of
        Inl e' \<Rightarrow> False
      | Inr result \<Rightarrow> resp_status result = st \<and> resp_json result = Inr b)"

text \<open>The defined entries of a query mapping, in the order of the mapping, each value
  converted to a string.\<close>

fun defined_params :: "'t runtime \<Rightarrow> query \<Rightarrow> (string \<times> string) list" where
  "defined_params rt [] = []"
| "defined_params rt ((k, None) # q) = defined_params rt q"
| "defined_params rt ((k, Some v) # q) = (k, toString rt v) # defined_params rt q"

subsection \<open>A concrete runtime, for evaluating the operations\<close>

text \<open>
  A small stand-in for the platform: a parser that accepts every non-empty string as a
  URL without a query, a serialiser and a \<open>JSON.stringify\<close> that do no escaping, decimal
  numbers, the default base URL and the token \<open>tok\<close>.  The transport is an argument.
\<close>

definition sample_URL_new :: "string \<Rightarrow> js_exception + URL" where
  "sample_URL_new s =
     (if s = [] then Inl (TypeError ''Invalid URL'') else Inr \<lparr>components = s, searchParams = []\<rparr>)"

fun join :: "string \<Rightarrow> string list \<Rightarrow> string" where
  "join sep [] = []"
| "join sep [x] = x"
| "join sep (x # y # ys) = x @ sep @ join sep (y # ys)"

definition sample_URL_toString :: "URL \<Rightarrow> string" where
  "sample_URL_toString u =
     (if searchParams u = [] then components u
      else components u @ ''?'' @ join ''&'' (map (\<lambda>(k, v). k @ ''='' @ v) (searchParams u)))"

function decimal :: "nat \<Rightarrow> string" where
  "decimal n =
     (if n < 10 then [''0123456789'' ! n]
      else decimal (n div 10) @ [''0123456789'' ! (n mod 10)])"
  by pat_completeness auto
termination
  by (relation "measure (\<lambda>n. n)") auto

declare decimal.simps [simp del]

definition sample_Number_toString :: "int \<Rightarrow> string" where
  "sample_Number_toString n = (if n < 0 then CHR ''-'' # decimal (nat (- n)) else decimal (nat n))"

definition quoted :: "string \<Rightarrow> string" where
  "quoted s = CHR 0x22 # s @ [CHR 0x22]"

fun sample_stringify :: "json \<Rightarrow> string" where
  "sample_stringify JNull = ''null''"
| "sample_stringify (JBool b) = (if b then ''true'' else ''false'')"
| "sample_stringify (JNum n) = sample_Number_toString n"
| "sample_stringify (JStr s) = quoted s"
| "sample_stringify (JArr xs) = ''['' @ join '','' (map sample_stringify xs) @ '']''"
| "sample_stringify (JObj kvs) =
     ''{'' @ join '','' (map (\<lambda>(k, v). quoted k @ '':'' @ sample_stringify v) kvs) @ ''}''"

definition sample_runtime :: "(request list \<Rightarrow> request \<Rightarrow> js_exception + 't Response) \<Rightarrow> 't runtime" where
  "sample_runtime transport =
     \<lparr>process_env = [''NEXT_PUBLIC_FW_STOREFRONT_TOKEN'' \<mapsto> ''tok''],
      URL_new = sample_URL_new,
      URL_toString = sample_URL_toString,
      Number_toString = sample_Number_toString,
      JSON_stringify = sample_stringify,
      fetch = transport\<rparr>"

text \<open>Three transports: the network is down; the provider answers 200 with the body
  \<open>b\<close>; the provider answers 502 with a body that is not JSON.\<close>

definition offline :: "request list \<Rightarrow> request \<Rightarrow> js_exception + 't Response" where
  "offline log req = Inl (TypeError ''fetch failed'')"

definition answering :: "'t \<Rightarrow> request list \<Rightarrow> request \<Rightarrow> js_exception + 't Response" where
  "answering b log req = Inr \<lparr>resp_status = 200, resp_json = Inr b\<rparr>"

definition garbled :: "request list \<Rightarrow> request \<Rightarrow> js_exception + 't Response" where
  "garbled log req = Inr \<lparr>resp_status = 502, resp_json = Inl (SyntaxError ''Unexpected token <'')\<rparr>"

text \<open>A stand-in for \<open>reshapeProducts\<close>: it keeps the elements of an array and throws
  on anything else.\<close>

fun sample_reshapeProducts :: "json \<Rightarrow> thrown + json list" where
  "sample_reshapeProducts (JArr products) = Inr products"
| "sample_reshapeProducts v = Inl (Uncaught (TypeError ''products.map is not a function''))"

definition fresh_world :: world where
  "fresh_world = \<lparr>fetched = [], warned = []\<rparr>"

section \<open>Properties\<close>

subsection \<open>The requests of the POST helper\<close>

lemma fourthwallPost_fetched:
  "fetched (snd (fourthwallPost rt url data options w)) =
     fetched w @ [post_request rt url data options]"
  by (simp add: fourthwallPost_def Let_def split: sum.splits)

lemma spread_Nil: "spread base [] = base"
  by (simp add: spread_def)

lemma snd_propagate:
  "snd (case p of (Inl e, w') \<Rightarrow> (Inl e, w') | (Inr res, w') \<Rightarrow> (Inr (f res), w')) = snd p"
  by (simp split: prod.splits sum.splits)

lemma post_request_no_store:
  "post_request rt url data (empty_init\<lparr>cache := Some ''no-store''\<rparr>) =
     \<lparr>req_url = url @ ''?storefront_token='' @ STOREFRONT_TOKEN rt,
      req_init = \<lparr>http_method = Some ''POST'', cache = Some ''no-store'',
                  headers = [(''Content-Type'', ''application/json'')],
                  init_body = Some (JSON_stringify rt data)\<rparr>\<rparr>"
  by (simp add: post_request_def empty_init_def spread_Nil)

lemma post_request_empty_init:
  "post_request rt url data empty_init =
     \<lparr>req_url = url @ ''?storefront_token='' @ STOREFRONT_TOKEN rt,
      req_init = \<lparr>http_method = Some ''POST'', cache = None,
                  headers = [(''Content-Type'', ''application/json'')],
                  init_body = Some (JSON_stringify rt data)\<rparr>\<rparr>"
  by (simp add: post_request_def empty_init_def spread_Nil)

subsection \<open>Cart mutations\<close>

text \<open>
  C1 (cache directive of the cart mutations).  \<open>createCart\<close> calls \<open>fourthwallPost\<close>
  with two arguments, so \<open>options\<close> is the default \<open>{}\<close>: the one request it issues is
  a POST to \<open>/v1/carts\<close> with the body \<open>{items: []}\<close> and with no \<open>cache\<close> field, where
  \<open>addToCart\<close>, \<open>removeFromCart\<close> and \<open>updateCart\<close> pass \<open>cache: 'no-store'\<close>.
\<close>

theorem createCart_request:
  "fetched (snd (createCart rt reshapeCart w)) =
     fetched w @
       [\<lparr>req_url = API_URL rt @ ''/v1/carts'' @ ''?storefront_token='' @ STOREFRONT_TOKEN rt,
         req_init = \<lparr>http_method = Some ''POST'', cache = None,
                     headers = [(''Content-Type'', ''application/json'')],
                     init_body = Some (JSON_stringify rt (JObj [(''items'', JArr [])]))\<rparr>\<rparr>]"
  by (simp add: createCart_def snd_propagate fourthwallPost_fetched post_request_empty_init)

text \<open>
  C8.  Whatever the provider answers, \<open>addToCart(cartId, lines)\<close> issues exactly one
  request: a POST to \<open>.../v1/carts/{cartId}/add\<close> (with the token appended), with
  \<open>cache: 'no-store'\<close>, whose body is the serialisation of \<open>{items}\<close>, the items being
  the lines mapped one by one, in order, to \<open>{variantId: merchandiseId, quantity}\<close>.
\<close>

theorem addToCart_request:
  "fetched (snd (addToCart rt reshapeCart cartId lines w)) =
     fetched w @
       [\<lparr>req_url = API_URL rt @ ''/v1/carts/'' @ cartId @ ''/add'' @ ''?storefront_token='' @ STOREFRONT_TOKEN rt,
         req_init = \<lparr>http_method = Some ''POST'', cache = Some ''no-store'',
                     headers = [(''Content-Type'', ''application/json'')],
                     init_body = Some (JSON_stringify rt (JObj [(''items'', JArr
                        (map (\<lambda>l. JObj [(''variantId'', JStr (merchandiseId l)), (''quantity'', JNum (quantity l))])
                           lines))]))\<rparr>\<rparr>]"
  by (simp add: addToCart_def Let_def snd_propagate fourthwallPost_fetched post_request_no_store)

text \<open>
  C9.  Whatever the provider answers, \<open>removeFromCart(cartId, lineIds)\<close> issues exactly
  one request: a POST to the cart's remove endpoint whose body is the serialisation of
  \<open>{items}\<close>, the items being the line ids mapped one by one, in order, to the object
  \<open>{variantId: id}\<close>, which has no other field.
\<close>

theorem removeFromCart_request:
  "fetched (snd (removeFromCart rt reshapeCart cartId lineIds w)) =
     fetched w @
       [\<lparr>req_url = API_URL rt @ ''/v1/carts/'' @ cartId @ ''/remove'' @ ''?storefront_token='' @ STOREFRONT_TOKEN rt,
         req_init = \<lparr>http_method = Some ''POST'', cache = Some ''no-store'',
                     headers = [(''Content-Type'', ''application/json'')],
                     init_body = Some (JSON_stringify rt (JObj [(''items'', JArr
                        (map (\<lambda>i. JObj [(''variantId'', JStr i)]) lineIds))]))\<rparr>\<rparr>]"
  by (simp add: removeFromCart_def Let_def snd_propagate fourthwallPost_fetched post_request_no_store)

lemma map_two_fields:
  "map f xs = map f ys \<Longrightarrow> map g xs = map g ys \<Longrightarrow>
     map (\<lambda>x. h (f x) (g x)) xs = map (\<lambda>x. h (f x) (g x)) ys"
proof (induction xs arbitrary: ys)
  case Nil
  then show ?case by simp
next
  case (Cons x xs)
  then obtain y ys' where "ys = y # ys'" by (cases ys) auto
  with Cons show ?case by simp
qed

text \<open>
  C2.  \<open>updateCart(cartId, lines)\<close> issues one POST to the cart's change endpoint
  whose items are the lines mapped one by one to \<open>{variantId: merchandiseId, quantity}\<close>;
  the line's own id is not transmitted: two line lists with the same merchandise ids and
  quantities give the same request, the same outcome and the same world, whatever their
  ids.
\<close>

theorem updateCart_items:
  "fetched (snd (updateCart rt reshapeCart cartId lines w)) =
     fetched w @
       [\<lparr>req_url = API_URL rt @ ''/v1/carts/'' @ cartId @ ''/change'' @ ''?storefront_token='' @ STOREFRONT_TOKEN rt,
         req_init = \<lparr>http_method = Some ''POST'', cache = Some ''no-store'',
                     headers = [(''Content-Type'', ''application/json'')],
                     init_body = Some (JSON_stringify rt (JObj [(''items'', JArr
                        (map (\<lambda>l. JObj [(''variantId'', JStr (merchandiseId l)), (''quantity'', JNum (quantity l))])
                           lines))]))\<rparr>\<rparr>]
   \<and> (map merchandiseId lines' = map merchandiseId lines \<longrightarrow>
      map quantity lines' = map quantity lines \<longrightarrow>
      updateCart rt reshapeCart cartId lines' w = updateCart rt reshapeCart cartId lines w)"
proof (intro conjI impI)
  show "fetched (snd (updateCart rt reshapeCart cartId lines w)) =
     fetched w @
       [\<lparr>req_url = API_URL rt @ ''/v1/carts/'' @ cartId @ ''/change'' @ ''?storefront_token='' @ STOREFRONT_TOKEN rt,
         req_init = \<lparr>http_method = Some ''POST'', cache = Some ''no-store'',
                     headers = [(''Content-Type'', ''application/json'')],
                     init_body = Some (JSON_stringify rt (JObj [(''items'', JArr
                        (map (\<lambda>l. JObj [(''variantId'', JStr (merchandiseId l)), (''quantity'', JNum (quantity l))])
                           lines))]))\<rparr>\<rparr>]"
    by (simp add: updateCart_def Let_def snd_propagate fourthwallPost_fetched post_request_no_store)
next
  assume m: "map merchandiseId lines' = map merchandiseId lines"
    and q: "map quantity lines' = map quantity lines"
  have "map (\<lambda>l. JObj [(''variantId'', JStr (merchandiseId l)), (''quantity'', JNum (quantity l))]) lines' =
        map (\<lambda>l. JObj [(''variantId'', JStr (merchandiseId l)), (''quantity'', JNum (quantity l))]) lines"
    by (rule map_two_fields [OF m q, where h = "\<lambda>a b. JObj [(''variantId'', JStr a), (''quantity'', JNum b)]"])
  then show "updateCart rt reshapeCart cartId lines' w = updateCart rt reshapeCart cartId lines w"
    by (simp add: updateCart_def Let_def)
qed

text \<open>The same line under two different ids, on the sample runtime.\<close>

theorem updateCart_items_witness:
  "fetched (snd (updateCart (sample_runtime (answering (7::nat))) id ''cart1''
       [\<lparr>merchandiseId = ''v1'', quantity = 3, id_line = ''line-a''\<rparr>] fresh_world)) =
     [\<lparr>req_url = ''https://storefront-api.fourthwall.com/v1/carts/cart1/change?storefront_token=tok'',
       req_init = \<lparr>http_method = Some ''POST'', cache = Some ''no-store'',
                   headers = [(''Content-Type'', ''application/json'')],
                   init_body = Some (sample_stringify (JObj [(''items'', JArr
                      [JObj [(''variantId'', JStr ''v1''), (''quantity'', JNum 3)]])]))\<rparr>\<rparr>]
   \<and> updateCart (sample_runtime (answering (7::nat))) id ''cart1''
       [\<lparr>merchandiseId = ''v1'', quantity = 3, id_line = ''line-b''\<rparr>] fresh_world =
     updateCart (sample_runtime (answering (7::nat))) id ''cart1''
       [\<lparr>merchandiseId = ''v1'', quantity = 3, id_line = ''line-a''\<rparr>] fresh_world"
  using updateCart_items [of "sample_runtime (answering (7::nat))" id "''cart1''"
      "[\<lparr>merchandiseId = ''v1'', quantity = 3, id_line = ''line-a''\<rparr>]" fresh_world
      "[\<lparr>merchandiseId = ''v1'', quantity = 3, id_line = ''line-b''\<rparr>]"]
  by (simp add: API_URL_def STOREFRONT_TOKEN_def or_default_def sample_runtime_def fresh_world_def)

subsection \<open>The requests of the GET helper, and the outcomes of both helpers\<close>

lemma index_query_distinct:
  "distinct (map fst query) \<Longrightarrow> (k, v) \<in> set query \<Longrightarrow> index_query query k = v"
  by (simp add: index_query_def)

lemma forEach_key_entries:
  "(\<And>k v. (k, v) \<in> set q \<Longrightarrow> index_query query k = v) \<Longrightarrow>
     forEach_key rt query (map fst q) u =
       u\<lparr>searchParams := searchParams u @ defined_params rt q\<rparr>"
proof (induction q arbitrary: u)
  case Nil
  show ?case by simp
next
  case (Cons entry q)
  obtain k v where entry: "entry = (k, v)" by (cases entry)
  have here: "index_query query k = v"
    using Cons.prems [of k v] by (simp add: entry)
  have rest: "\<And>u'. forEach_key rt query (map fst q) u' =
                u'\<lparr>searchParams := searchParams u' @ defined_params rt q\<rparr>"
    using Cons.IH Cons.prems by simp
  show ?case
    by (cases v) (simp_all add: entry here rest searchParams_append_def)
qed

lemma forEach_key_defined:
  "distinct (map fst query) \<Longrightarrow>
     forEach_key rt query (map fst query) u =
       u\<lparr>searchParams := searchParams u @ defined_params rt query\<rparr>"
  by (rule forEach_key_entries) (rule index_query_distinct)

lemma get_request_url:
  "distinct (map fst query) \<Longrightarrow>
     req_url (get_request rt parsed query options) =
       URL_toString rt
         (parsed\<lparr>searchParams := searchParams parsed @ defined_params rt query @
                                   [(''storefront_token'', STOREFRONT_TOKEN rt)]\<rparr>)"
  by (simp add: get_request_def Let_def forEach_key_defined searchParams_append_def)

lemma fourthwallGet_fetched:
  "URL_new rt url = Inr parsed \<Longrightarrow>
     fetched (snd (fourthwallGet rt url query options w)) =
       fetched w @ [get_request rt parsed query options]"
  by (simp add: fourthwallGet_def Let_def split: sum.splits)

lemma fourthwallGet_fails:
  "URL_new rt url = Inr parsed \<Longrightarrow> fails_with rt w (get_request rt parsed query options) e \<Longrightarrow>
     fourthwallGet rt url query options w =
       (Inl (ErrorUrl e url), w\<lparr>fetched := fetched w @ [get_request rt parsed query options]\<rparr>)"
  by (auto simp: fourthwallGet_def fails_with_def Let_def split: sum.splits)

lemma fourthwallGet_answers:
  "URL_new rt url = Inr parsed \<Longrightarrow> answers_with rt w (get_request rt parsed query options) st b \<Longrightarrow>
     fourthwallGet rt url query options w =
       (Inr \<lparr>status = st, body = b\<rparr>, w\<lparr>fetched := fetched w @ [get_request rt parsed query options]\<rparr>)"
  by (auto simp: fourthwallGet_def answers_with_def Let_def split: sum.splits)

lemma fourthwallPost_fails:
  "fails_with rt w (post_request rt url data options) e \<Longrightarrow>
     fourthwallPost rt url data options w =
       (Inl (ErrorUrlData e url data), w\<lparr>fetched := fetched w @ [post_request rt url data options]\<rparr>)"
  by (auto simp: fourthwallPost_def fails_with_def Let_def split: sum.splits)

text \<open>
  C7.  Where the keys of the query mapping are distinct (as those of an object are) and
  \<open>new URL(url)\<close> succeeds, the URL that \<open>fourthwallGet\<close> fetches is the parsed base URL
  with, appended to its query in this order, the defined entries of the mapping in
  mapping order (the undefined ones left out) and then \<open>storefront_token\<close>.  The URL
  that \<open>fourthwallPost\<close> fetches is its \<open>url\<close> followed by \<open>?storefront_token=\<close> and the
  token.  Every request of the module goes through one of the two helpers.
\<close>

theorem token_on_every_url:
  "(distinct (map fst query) \<longrightarrow> URL_new rt url = Inr parsed \<longrightarrow>
      map req_url (fetched (snd (fourthwallGet rt url query options w))) =
        map req_url (fetched w) @
          [URL_toString rt
             (parsed\<lparr>searchParams := searchParams parsed @ defined_params rt query @
                                       [(''storefront_token'', STOREFRONT_TOKEN rt)]\<rparr>)])
   \<and> map req_url (fetched (snd (fourthwallPost rt' url' data options' w))) =
        map req_url (fetched w) @ [url' @ ''?storefront_token='' @ STOREFRONT_TOKEN rt']"
  by (simp add: fourthwallGet_fetched get_request_url fourthwallPost_fetched post_request_def)

text \<open>A query with an undefined entry and a number, and a POST, on the sample runtime.\<close>

theorem token_on_every_url_witness:
  "map req_url (fetched (snd (fourthwallGet (sample_runtime (answering (7::nat)))
       ''https://shop.example/v1/collections/tees/products''
       [(''currency'', Some (QString ''USD'')), (''page'', None), (''limit'', Some (QNumber 24))]
       empty_init fresh_world))) =
     [''https://shop.example/v1/collections/tees/products?currency=USD&limit=24&storefront_token=tok'']
   \<and> map req_url (fetched (snd (fourthwallPost (sample_runtime (answering (7::nat)))
       ''https://shop.example/v1/carts'' (JObj [(''items'', JArr [])]) empty_init fresh_world))) =
     [''https://shop.example/v1/carts?storefront_token=tok'']"
  using token_on_every_url [where
      query = "[(''currency'', Some (QString ''USD'')), (''page'', None), (''limit'', Some (QNumber 24))]"
      and rt = "sample_runtime (answering (7::nat))"
      and url = "''https://shop.example/v1/collections/tees/products''"
      and parsed = "\<lparr>components = ''https://shop.example/v1/collections/tees/products'', searchParams = []\<rparr>"
      and options = empty_init and w = fresh_world
      and rt' = "sample_runtime (answering (7::nat))"
      and url' = "''https://shop.example/v1/carts''"
      and data = "JObj [(''items'', JArr [])]" and options' = empty_init]
  by (simp add: sample_runtime_def sample_URL_new_def sample_URL_toString_def STOREFRONT_TOKEN_def
      or_default_def fresh_world_def toString_def sample_Number_toString_def decimal.simps)

subsection \<open>Collection operations\<close>

text \<open>
  C6.  When the collections URL parses and the provider answers with a body \<open>b\<close>,
  \<open>getCollections\<close> returns the list obtained by mapping each element \<open>c\<close> of
  \<open>b.results\<close>, in order, to \<open>{handle: c.slug, title: c.name, description:
  c.description}\<close> (so a list of the same length, element by element), after exactly one
  request; the empty results list gives the empty list.
\<close>

theorem getCollections_mapping:
  "URL_new rt (API_URL rt @ ''/api/public/v1.0/collections'') = Inr parsed \<longrightarrow>
   answers_with rt w (get_request rt parsed [] empty_init) st b \<longrightarrow>
     getCollections rt w =
       (Inr (map (\<lambda>c. \<lparr>handle = slug c, title = name c,
                        description = FourthwallCollection.description c\<rparr>) (results b)),
        w\<lparr>fetched := fetched w @ [get_request rt parsed [] empty_init]\<rparr>)
     \<and> (results b = [] \<longrightarrow> fst (getCollections rt w) = Inr [])"
proof (intro impI)
  assume p: "URL_new rt (API_URL rt @ ''/api/public/v1.0/collections'') = Inr parsed"
    and a: "answers_with rt w (get_request rt parsed [] empty_init) st b"
  show "getCollections rt w =
       (Inr (map (\<lambda>c. \<lparr>handle = slug c, title = name c,
                        description = FourthwallCollection.description c\<rparr>) (results b)),
        w\<lparr>fetched := fetched w @ [get_request rt parsed [] empty_init]\<rparr>)
     \<and> (results b = [] \<longrightarrow> fst (getCollections rt w) = Inr [])"
    using fourthwallGet_answers [OF p a] by (simp add: getCollections_def)
qed

text \<open>The example of the specification, followed by a second collection.\<close>

theorem getCollections_mapping_witness:
  "getCollections
     (sample_runtime (answering \<lparr>results = [\<lparr>slug = ''tees'', name = ''T-Shirts'', description = ''d''\<rparr>,
                                              \<lparr>slug = ''mugs'', name = ''Mugs'', description = ''''\<rparr>]\<rparr>))
     fresh_world =
   (Inr [\<lparr>handle = ''tees'', title = ''T-Shirts'', description = ''d''\<rparr>,
         \<lparr>handle = ''mugs'', title = ''Mugs'', description = ''''\<rparr>],
    \<lparr>fetched =
       [\<lparr>req_url = ''https://storefront-api.fourthwall.com/api/public/v1.0/collections?storefront_token=tok'',
         req_init = \<lparr>http_method = Some ''GET'', cache = None,
                     headers = [(''Content-Type'', ''application/json'')], init_body = None\<rparr>\<rparr>],
     warned = []\<rparr>)"
  using getCollections_mapping [where
      rt = "sample_runtime (answering \<lparr>results = [\<lparr>slug = ''tees'', name = ''T-Shirts'', description = ''d''\<rparr>,
                                              \<lparr>slug = ''mugs'', name = ''Mugs'', description = ''''\<rparr>]\<rparr>)"
      and parsed = "\<lparr>components = ''https://storefront-api.fourthwall.com/api/public/v1.0/collections'',
                     searchParams = []\<rparr>"
      and w = fresh_world and st = 200
      and b = "\<lparr>results = [\<lparr>slug = ''tees'', name = ''T-Shirts'', description = ''d''\<rparr>,
                            \<lparr>slug = ''mugs'', name = ''Mugs'', description = ''''\<rparr>]\<rparr>"]
  by (simp add: sample_runtime_def sample_URL_new_def sample_URL_toString_def API_URL_def
      STOREFRONT_TOKEN_def or_default_def fresh_world_def answers_with_def answering_def
      get_request_def Let_def searchParams_append_def empty_init_def spread_Nil)

text \<open>
  C5, as amended.  When the products URL parses and the provider answers with a parsed
  body \<open>b\<close> other than \<open>null\<close>: if \<open>b\<close> has no \<open>results\<close> field, or has one whose
  value is falsy (\<open>null\<close>, \<open>false\<close>, zero, the empty string), \<open>getCollectionProducts\<close>
  writes one warning naming the collection and returns the empty list, without throwing;
  if \<open>b\<close> has a \<open>results\<close> field whose value is truthy (every array, the empty one
  too), it gives what \<open>reshapeProducts\<close> gives on that value and writes no warning.  In
  both cases exactly one request has been issued.
\<close>

theorem getCollectionProducts_truthiness:
  "URL_new rt (API_URL rt @ ''/v1/collections/'' @ collection @ ''/products'') = Inr parsed \<longrightarrow>
   answers_with rt w
     (get_request rt parsed
        [(''currency'', Some (QString currency)), (''limit'', map_option QNumber limit)] empty_init)
     st b \<longrightarrow>
   b \<noteq> JNull \<longrightarrow>
     (results_field b = None \<or> (\<exists>v. results_field b = Some v \<and> \<not> truthy v) \<longrightarrow>
        getCollectionProducts rt reshapeProducts collection currency limit w =
          (Inr [],
           w\<lparr>fetched := fetched w @
                 [get_request rt parsed
                    [(''currency'', Some (QString currency)), (''limit'', map_option QNumber limit)]
                    empty_init],
             warned := warned w @ [''No collection found for `'' @ collection @ ''`'']\<rparr>))
     \<and> (\<forall>v. results_field b = Some v \<longrightarrow> truthy v \<longrightarrow>
        getCollectionProducts rt reshapeProducts collection currency limit w =
          (reshapeProducts v,
           w\<lparr>fetched := fetched w @
                 [get_request rt parsed
                    [(''currency'', Some (QString currency)), (''limit'', map_option QNumber limit)]
                    empty_init]\<rparr>))"
proof (intro impI)
  assume p: "URL_new rt (API_URL rt @ ''/v1/collections/'' @ collection @ ''/products'') = Inr parsed"
    and a: "answers_with rt w
     (get_request rt parsed
        [(''currency'', Some (QString currency)), (''limit'', map_option QNumber limit)] empty_init)
     st b"
    and n: "b \<noteq> JNull"
  have run: "getCollectionProducts rt reshapeProducts collection currency limit w =
      (case results_field b of
         None \<Rightarrow>
           (Inr [],
            w\<lparr>fetched := fetched w @
                  [get_request rt parsed
                     [(''currency'', Some (QString currency)), (''limit'', map_option QNumber limit)]
                     empty_init],
              warned := warned w @ [''No collection found for `'' @ collection @ ''`'']\<rparr>)
       | Some v \<Rightarrow>
           if \<not> truthy v
           then (Inr [],
                 w\<lparr>fetched := fetched w @
                       [get_request rt parsed
                          [(''currency'', Some (QString currency)), (''limit'', map_option QNumber limit)]
                          empty_init],
                   warned := warned w @ [''No collection found for `'' @ collection @ ''`'']\<rparr>)
           else (reshapeProducts v,
                 w\<lparr>fetched := fetched w @
                       [get_request rt parsed
                          [(''currency'', Some (QString currency)), (''limit'', map_option QNumber limit)]
                          empty_init]\<rparr>))"
    using n fourthwallGet_answers [OF p a]
    by (simp add: getCollectionProducts_def split: option.splits)
  show "(results_field b = None \<or> (\<exists>v. results_field b = Some v \<and> \<not> truthy v) \<longrightarrow>
        getCollectionProducts rt reshapeProducts collection currency limit w =
          (Inr [],
           w\<lparr>fetched := fetched w @
                 [get_request rt parsed
                    [(''currency'', Some (QString currency)), (''limit'', map_option QNumber limit)]
                    empty_init],
             warned := warned w @ [''No collection found for `'' @ collection @ ''`'']\<rparr>))
     \<and> (\<forall>v. results_field b = Some v \<longrightarrow> truthy v \<longrightarrow>
        getCollectionProducts rt reshapeProducts collection currency limit w =
          (reshapeProducts v,
           w\<lparr>fetched := fetched w @
                 [get_request rt parsed
                    [(''currency'', Some (QString currency)), (''limit'', map_option QNumber limit)]
                    empty_init]\<rparr>))"
    unfolding run by auto
qed

text \<open>
  Five bodies on the sample runtime: an object without \<open>results\<close>, a number, an object
  whose \<open>results\<close> is \<open>null\<close>, one with two products and one with the empty array.
\<close>

theorem getCollectionProducts_truthiness_witness:
  "getCollectionProducts (sample_runtime (answering (JObj [(''error'', JStr ''not found'')]))) sample_reshapeProducts
       ''hats'' ''USD'' None fresh_world =
     (Inr [],
      \<lparr>fetched =
         [\<lparr>req_url = ''https://storefront-api.fourthwall.com/v1/collections/hats/products?currency=USD&storefront_token=tok'',
           req_init = \<lparr>http_method = Some ''GET'', cache = None,
                       headers = [(''Content-Type'', ''application/json'')], init_body = None\<rparr>\<rparr>],
       warned = [''No collection found for `hats`'']\<rparr>)
   \<and> getCollectionProducts (sample_runtime (answering (JNum 7))) sample_reshapeProducts
       ''hats'' ''USD'' None fresh_world =
     (Inr [],
      \<lparr>fetched =
         [\<lparr>req_url = ''https://storefront-api.fourthwall.com/v1/collections/hats/products?currency=USD&storefront_token=tok'',
           req_init = \<lparr>http_method = Some ''GET'', cache = None,
                       headers = [(''Content-Type'', ''application/json'')], init_body = None\<rparr>\<rparr>],
       warned = [''No collection found for `hats`'']\<rparr>)
   \<and> getCollectionProducts (sample_runtime (answering (JObj [(''results'', JNull)]))) sample_reshapeProducts
       ''hats'' ''USD'' None fresh_world =
     (Inr [],
      \<lparr>fetched =
         [\<lparr>req_url = ''https://storefront-api.fourthwall.com/v1/collections/hats/products?currency=USD&storefront_token=tok'',
           req_init = \<lparr>http_method = Some ''GET'', cache = None,
                       headers = [(''Content-Type'', ''application/json'')], init_body = None\<rparr>\<rparr>],
       warned = [''No collection found for `hats`'']\<rparr>)
   \<and> getCollectionProducts (sample_runtime (answering (JObj [(''results'', JArr [JStr ''p1'', JStr ''p2''])]))) sample_reshapeProducts
       ''hats'' ''USD'' None fresh_world =
     (Inr [JStr ''p1'', JStr ''p2''],
      \<lparr>fetched =
         [\<lparr>req_url = ''https://storefront-api.fourthwall.com/v1/collections/hats/products?currency=USD&storefront_token=tok'',
           req_init = \<lparr>http_method = Some ''GET'', cache = None,
                       headers = [(''Content-Type'', ''application/json'')], init_body = None\<rparr>\<rparr>],
       warned = []\<rparr>)
   \<and> getCollectionProducts (sample_runtime (answering (JObj [(''results'', JArr [])]))) sample_reshapeProducts
       ''hats'' ''USD'' None fresh_world =
     (Inr [],
      \<lparr>fetched =
         [\<lparr>req_url = ''https://storefront-api.fourthwall.com/v1/collections/hats/products?currency=USD&storefront_token=tok'',
           req_init = \<lparr>http_method = Some ''GET'', cache = None,
                       headers = [(''Content-Type'', ''application/json'')], init_body = None\<rparr>\<rparr>],
       warned = []\<rparr>)"
  using
    getCollectionProducts_truthiness [where rt = "sample_runtime (answering (JObj [(''error'', JStr ''not found'')]))"
      and reshapeProducts = sample_reshapeProducts and collection = "''hats''" and currency = "''USD''"
      and limit = None and w = fresh_world and st = 200 and b = "JObj [(''error'', JStr ''not found'')]"
      and parsed = "\<lparr>components = ''https://storefront-api.fourthwall.com/v1/collections/hats/products'',
                     searchParams = []\<rparr>"]
    getCollectionProducts_truthiness [where rt = "sample_runtime (answering (JNum 7))"
      and reshapeProducts = sample_reshapeProducts and collection = "''hats''" and currency = "''USD''"
      and limit = None and w = fresh_world and st = 200 and b = "JNum 7"
      and parsed = "\<lparr>components = ''https://storefront-api.fourthwall.com/v1/collections/hats/products'',
                     searchParams = []\<rparr>"]
    getCollectionProducts_truthiness [where rt = "sample_runtime (answering (JObj [(''results'', JNull)]))"
      and reshapeProducts = sample_reshapeProducts and collection = "''hats''" and currency = "''USD''"
      and limit = None and w = fresh_world and st = 200 and b = "JObj [(''results'', JNull)]"
      and parsed = "\<lparr>components = ''https://storefront-api.fourthwall.com/v1/collections/hats/products'',
                     searchParams = []\<rparr>"]
    getCollectionProducts_truthiness [where rt = "sample_runtime (answering (JObj [(''results'', JArr [JStr ''p1'', JStr ''p2''])]))"
      and reshapeProducts = sample_reshapeProducts and collection = "''hats''" and currency = "''USD''"
      and limit = None and w = fresh_world and st = 200 and b = "JObj [(''results'', JArr [JStr ''p1'', JStr ''p2''])]"
      and parsed = "\<lparr>components = ''https://storefront-api.fourthwall.com/v1/collections/hats/products'',
                     searchParams = []\<rparr>"]
    getCollectionProducts_truthiness [where rt = "sample_runtime (answering (JObj [(''results'', JArr [])]))"
      and reshapeProducts = sample_reshapeProducts and collection = "''hats''" and currency = "''USD''"
      and limit = None and w = fresh_world and st = 200 and b = "JObj [(''results'', JArr [])]"
      and parsed = "\<lparr>components = ''https://storefront-api.fourthwall.com/v1/collections/hats/products'',
                     searchParams = []\<rparr>"]
  by (simp add: sample_runtime_def sample_URL_new_def sample_URL_toString_def API_URL_def
      STOREFRONT_TOKEN_def or_default_def fresh_world_def answers_with_def answering_def
      get_request_def Let_def searchParams_append_def empty_init_def spread_Nil index_query_def
      toString_def)

text \<open>
  C5 as stated speaks of every provider response.  The body \<open>null\<close> has no \<open>results\<close>
  field, and on it the read of line 101 raises: the operation throws a \<open>TypeError\<close>
  after its one request, with no warning.  The body \<open>{results: null}\<close> has a \<open>results\<close>
  field, and on it the operation warns and returns the empty list, which is not what
  the reshape stand-in gives on \<open>null\<close>.
\<close>

theorem getCollectionProducts_every_response_counterexample:
  "getCollectionProducts (sample_runtime (answering (JNull))) sample_reshapeProducts
       ''hats'' ''USD'' None fresh_world =
     (Inl (Uncaught (TypeError ''Cannot read properties of null'')),
      \<lparr>fetched =
         [\<lparr>req_url = ''https://storefront-api.fourthwall.com/v1/collections/hats/products?currency=USD&storefront_token=tok'',
           req_init = \<lparr>http_method = Some ''GET'', cache = None,
                       headers = [(''Content-Type'', ''application/json'')], init_body = None\<rparr>\<rparr>],
       warned = []\<rparr>)
   \<and> getCollectionProducts (sample_runtime (answering (JObj [(''results'', JNull)]))) sample_reshapeProducts
       ''hats'' ''USD'' None fresh_world =
     (Inr [],
      \<lparr>fetched =
         [\<lparr>req_url = ''https://storefront-api.fourthwall.com/v1/collections/hats/products?currency=USD&storefront_token=tok'',
           req_init = \<lparr>http_method = Some ''GET'', cache = None,
                       headers = [(''Content-Type'', ''application/json'')], init_body = None\<rparr>\<rparr>],
       warned = [''No collection found for `hats`'']\<rparr>)
   \<and> sample_reshapeProducts JNull \<noteq> Inr []"
  by (simp add: getCollectionProducts_def fourthwallGet_def sample_runtime_def sample_URL_new_def
      sample_URL_toString_def API_URL_def STOREFRONT_TOKEN_def or_default_def fresh_world_def
      answering_def get_request_def Let_def searchParams_append_def empty_init_def spread_Nil
      index_query_def toString_def)

subsection \<open>Reading a cart\<close>

text \<open>
  C10.  For the empty string as \<open>cartId\<close>, \<open>getCart\<close> returns undefined and leaves the
  world as it was: no request is issued.  The test of line 123 is \<open>!cartId\<close>, which holds
  for the empty string as for an absent id.
\<close>

theorem getCart_empty_string:
  "getCart rt reshapeCart (Some '''') currency w = (Inr None, w)"
  by (simp add: getCart_def)

text \<open>
  C4, as amended.  For an absent \<open>cartId\<close>, \<open>getCart\<close> returns undefined and issues no
  request.  For every non-empty \<open>cartId\<close> whose cart URL parses, it issues exactly one
  request, a GET of \<open>.../v1/carts/{cartId}\<close> with \<open>currency\<close> and the token in its query
  and with \<open>cache: 'no-store'\<close>, and when the provider answers with a body it returns
  \<open>reshapeCart\<close> of that body.
\<close>

theorem getCart_calls:
  "getCart rt reshapeCart None currency w = (Inr None, w)
   \<and> (cartId \<noteq> '''' \<longrightarrow> URL_new rt (API_URL rt @ ''/v1/carts/'' @ cartId) = Inr parsed \<longrightarrow>
        fetched (snd (getCart rt reshapeCart (Some cartId) currency w)) =
          fetched w @
            [\<lparr>req_url = URL_toString rt
                 (parsed\<lparr>searchParams := searchParams parsed @
                            [(''currency'', currency), (''storefront_token'', STOREFRONT_TOKEN rt)]\<rparr>),
              req_init = \<lparr>http_method = Some ''GET'', cache = Some ''no-store'',
                          headers = [(''Content-Type'', ''application/json'')], init_body = None\<rparr>\<rparr>]
        \<and> (\<forall>st b. answers_with rt w
               (get_request rt parsed [(''currency'', Some (QString currency))]
                  (empty_init\<lparr>cache := Some ''no-store''\<rparr>)) st b \<longrightarrow>
             fst (getCart rt reshapeCart (Some cartId) currency w) = Inr (Some (reshapeCart b))))"
proof (intro conjI impI allI)
  show "getCart rt reshapeCart None currency w = (Inr None, w)"
    by (simp add: getCart_def)
next
  assume c: "cartId \<noteq> ''''"
    and p: "URL_new rt (API_URL rt @ ''/v1/carts/'' @ cartId) = Inr parsed"
  have req: "get_request rt parsed [(''currency'', Some (QString currency))]
               (empty_init\<lparr>cache := Some ''no-store''\<rparr>) =
             \<lparr>req_url = URL_toString rt
                 (parsed\<lparr>searchParams := searchParams parsed @
                            [(''currency'', currency), (''storefront_token'', STOREFRONT_TOKEN rt)]\<rparr>),
              req_init = \<lparr>http_method = Some ''GET'', cache = Some ''no-store'',
                          headers = [(''Content-Type'', ''application/json'')], init_body = None\<rparr>\<rparr>"
    by (simp add: get_request_def Let_def index_query_def searchParams_append_def toString_def
        empty_init_def spread_Nil)
  have s: "snd (getCart rt reshapeCart (Some cartId) currency w) =
        snd (fourthwallGet rt (API_URL rt @ ''/v1/carts/'' @ cartId)
               [(''currency'', Some (QString currency))] (empty_init\<lparr>cache := Some ''no-store''\<rparr>) w)"
    using c by (simp add: getCart_def split: prod.splits sum.splits)
  show "fetched (snd (getCart rt reshapeCart (Some cartId) currency w)) =
          fetched w @
            [\<lparr>req_url = URL_toString rt
                 (parsed\<lparr>searchParams := searchParams parsed @
                            [(''currency'', currency), (''storefront_token'', STOREFRONT_TOKEN rt)]\<rparr>),
              req_init = \<lparr>http_method = Some ''GET'', cache = Some ''no-store'',
                          headers = [(''Content-Type'', ''application/json'')], init_body = None\<rparr>\<rparr>]"
    unfolding s fourthwallGet_fetched [OF p] req ..
next
  fix st b
  assume c: "cartId \<noteq> ''''"
    and p: "URL_new rt (API_URL rt @ ''/v1/carts/'' @ cartId) = Inr parsed"
    and a: "answers_with rt w
               (get_request rt parsed [(''currency'', Some (QString currency))]
                  (empty_init\<lparr>cache := Some ''no-store''\<rparr>)) st b"
  show "fst (getCart rt reshapeCart (Some cartId) currency w) = Inr (Some (reshapeCart b))"
    using c fourthwallGet_answers [OF p a] by (simp add: getCart_def)
qed

text \<open>No id, and the id \<open>cart1\<close>, on the sample runtime.\<close>

theorem getCart_calls_witness:
  "getCart (sample_runtime (answering (7::nat))) Suc None ''USD'' fresh_world = (Inr None, fresh_world)
   \<and> fetched (snd (getCart (sample_runtime (answering (7::nat))) Suc (Some ''cart1'') ''USD'' fresh_world)) =
         [\<lparr>req_url = ''https://storefront-api.fourthwall.com/v1/carts/cart1?currency=USD&storefront_token=tok'',
           req_init = \<lparr>http_method = Some ''GET'', cache = Some ''no-store'',
                       headers = [(''Content-Type'', ''application/json'')], init_body = None\<rparr>\<rparr>]
   \<and> fst (getCart (sample_runtime (answering (7::nat))) Suc (Some ''cart1'') ''USD'' fresh_world) =
         Inr (Some 8)"
  using getCart_calls [where rt = "sample_runtime (answering (7::nat))" and reshapeCart = Suc
      and currency = "''USD''" and w = fresh_world and cartId = "''cart1''"
      and parsed = "\<lparr>components = ''https://storefront-api.fourthwall.com/v1/carts/cart1'',
                     searchParams = []\<rparr>"]
  by (simp add: sample_runtime_def sample_URL_new_def sample_URL_toString_def API_URL_def
      STOREFRONT_TOKEN_def or_default_def fresh_world_def answers_with_def answering_def
      get_request_def Let_def searchParams_append_def empty_init_def spread_Nil index_query_def
      toString_def)

text \<open>
  C4 as stated asks for exactly one GET for every defined \<open>cartId\<close>.  The empty string
  is a defined \<open>cartId\<close>, and for it no request is issued.
\<close>

theorem getCart_defined_counterexample:
  "getCart (sample_runtime (answering (7::nat))) Suc (Some '''') ''USD'' fresh_world =
     (Inr None, fresh_world)
   \<and> length (fetched (snd (getCart (sample_runtime (answering (7::nat))) Suc (Some '''') ''USD''
        fresh_world))) \<noteq> length (fetched fresh_world) + 1"
  by (simp add: getCart_def)

subsection \<open>Transport failures\<close>

text \<open>
  C3.  For each of the four operations built on \<open>fourthwallGet\<close> (\<open>getCart\<close> with an
  id that passes its guard): when the request it issues fails with the cause \<open>e\<close>,
  whether \<open>fetch\<close> rejects or the body is not JSON, the operation throws the object
  \<open>{error: e, url}\<close>, where \<open>url\<close> is the resource URL the operation asked the helper
  for.  For each of the four operations built on \<open>fourthwallPost\<close>, it throws
  \<open>{error: e, url, data}\<close>, where \<open>data\<close> is the payload being sent.  In every case
  the world afterwards holds that one request and nothing else new: there is no second
  attempt, and no warning.
\<close>

theorem transport_failure_is_thrown:
  "(URL_new rtC (API_URL rtC @ ''/api/public/v1.0/collections'') = Inr pC \<longrightarrow>
    fails_with rtC w (get_request rtC pC [] empty_init) e \<longrightarrow>
      getCollections rtC w =
        (Inl (ErrorUrl e (API_URL rtC @ ''/api/public/v1.0/collections'')),
         w\<lparr>fetched := fetched w @ [get_request rtC pC [] empty_init]\<rparr>))
   \<and> (URL_new rtL (API_URL rtL @ ''/v1/collections/'' @ collection @ ''/products'') = Inr pL \<longrightarrow>
    fails_with rtL w
      (get_request rtL pL
         [(''currency'', Some (QString currency)), (''limit'', map_option QNumber limit)] empty_init) e \<longrightarrow>
      getCollectionProducts rtL reshapeProducts collection currency limit w =
        (Inl (ErrorUrl e (API_URL rtL @ ''/v1/collections/'' @ collection @ ''/products'')),
         w\<lparr>fetched := fetched w @
               [get_request rtL pL
                  [(''currency'', Some (QString currency)), (''limit'', map_option QNumber limit)]
                  empty_init]\<rparr>))
   \<and> (URL_new rtP (API_URL rtP @ ''/v1/products/'' @ handle') = Inr pP \<longrightarrow>
    fails_with rtP w (get_request rtP pP [(''currency'', Some (QString currency))] empty_init) e \<longrightarrow>
      getProduct rtP reshapeProduct handle' currency w =
        (Inl (ErrorUrl e (API_URL rtP @ ''/v1/products/'' @ handle')),
         w\<lparr>fetched := fetched w @
               [get_request rtP pP [(''currency'', Some (QString currency))] empty_init]\<rparr>))
   \<and> (cartId \<noteq> '''' \<longrightarrow> URL_new rtK (API_URL rtK @ ''/v1/carts/'' @ cartId) = Inr pK \<longrightarrow>
    fails_with rtK w
      (get_request rtK pK [(''currency'', Some (QString currency))]
         (empty_init\<lparr>cache := Some ''no-store''\<rparr>)) e \<longrightarrow>
      getCart rtK reshapeCartK (Some cartId) currency w =
        (Inl (ErrorUrl e (API_URL rtK @ ''/v1/carts/'' @ cartId)),
         w\<lparr>fetched := fetched w @
               [get_request rtK pK [(''currency'', Some (QString currency))]
                  (empty_init\<lparr>cache := Some ''no-store''\<rparr>)]\<rparr>))
   \<and> (fails_with rtN w
      (post_request rtN (API_URL rtN @ ''/v1/carts'') (JObj [(''items'', JArr [])]) empty_init) e \<longrightarrow>
      createCart rtN reshapeCartN w =
        (Inl (ErrorUrlData e (API_URL rtN @ ''/v1/carts'') (JObj [(''items'', JArr [])])),
         w\<lparr>fetched := fetched w @
               [post_request rtN (API_URL rtN @ ''/v1/carts'') (JObj [(''items'', JArr [])]) empty_init]\<rparr>))
   \<and> (fails_with rtA w
      (post_request rtA (API_URL rtA @ ''/v1/carts/'' @ cartId @ ''/add'')
         (JObj [(''items'', JArr (map (\<lambda>l. JObj [(''variantId'', JStr (merchandiseId l)),
                                                    (''quantity'', JNum (quantity l))]) lines))])
         (empty_init\<lparr>cache := Some ''no-store''\<rparr>)) e \<longrightarrow>
      addToCart rtA reshapeCartA cartId lines w =
        (Inl (ErrorUrlData e (API_URL rtA @ ''/v1/carts/'' @ cartId @ ''/add'')
               (JObj [(''items'', JArr (map (\<lambda>l. JObj [(''variantId'', JStr (merchandiseId l)),
                                                          (''quantity'', JNum (quantity l))]) lines))])),
         w\<lparr>fetched := fetched w @
               [post_request rtA (API_URL rtA @ ''/v1/carts/'' @ cartId @ ''/add'')
                  (JObj [(''items'', JArr (map (\<lambda>l. JObj [(''variantId'', JStr (merchandiseId l)),
                                                             (''quantity'', JNum (quantity l))]) lines))])
                  (empty_init\<lparr>cache := Some ''no-store''\<rparr>)]\<rparr>))
   \<and> (fails_with rtR w
      (post_request rtR (API_URL rtR @ ''/v1/carts/'' @ cartId @ ''/remove'')
         (JObj [(''items'', JArr (map (\<lambda>i. JObj [(''variantId'', JStr i)]) lineIds))])
         (empty_init\<lparr>cache := Some ''no-store''\<rparr>)) e \<longrightarrow>
      removeFromCart rtR reshapeCartR cartId lineIds w =
        (Inl (ErrorUrlData e (API_URL rtR @ ''/v1/carts/'' @ cartId @ ''/remove'')
               (JObj [(''items'', JArr (map (\<lambda>i. JObj [(''variantId'', JStr i)]) lineIds))])),
         w\<lparr>fetched := fetched w @
               [post_request rtR (API_URL rtR @ ''/v1/carts/'' @ cartId @ ''/remove'')
                  (JObj [(''items'', JArr (map (\<lambda>i. JObj [(''variantId'', JStr i)]) lineIds))])
                  (empty_init\<lparr>cache := Some ''no-store''\<rparr>)]\<rparr>))
   \<and> (fails_with rtU w
      (post_request rtU (API_URL rtU @ ''/v1/carts/'' @ cartId @ ''/change'')
         (JObj [(''items'', JArr (map (\<lambda>l. JObj [(''variantId'', JStr (merchandiseId l)),
                                                    (''quantity'', JNum (quantity l))]) ulines))])
         (empty_init\<lparr>cache := Some ''no-store''\<rparr>)) e \<longrightarrow>
      updateCart rtU reshapeCartU cartId ulines w =
        (Inl (ErrorUrlData e (API_URL rtU @ ''/v1/carts/'' @ cartId @ ''/change'')
               (JObj [(''items'', JArr (map (\<lambda>l. JObj [(''variantId'', JStr (merchandiseId l)),
                                                          (''quantity'', JNum (quantity l))]) ulines))])),
         w\<lparr>fetched := fetched w @
               [post_request rtU (API_URL rtU @ ''/v1/carts/'' @ cartId @ ''/change'')
                  (JObj [(''items'', JArr (map (\<lambda>l. JObj [(''variantId'', JStr (merchandiseId l)),
                                                             (''quantity'', JNum (quantity l))]) ulines))])
                  (empty_init\<lparr>cache := Some ''no-store''\<rparr>)]\<rparr>))"
  by (simp_all add: getCollections_def getCollectionProducts_def getProduct_def getCart_def
      createCart_def addToCart_def removeFromCart_def updateCart_def Let_def
      fourthwallGet_fails fourthwallPost_fails)

text \<open>Every operation with the network down, and two of them with a body that is not
  JSON.\<close>

theorem transport_failure_is_thrown_witness:
  "getCollections (sample_runtime offline :: FourthwallCollection list listing runtime) fresh_world =
     (Inl (ErrorUrl (TypeError ''fetch failed'')
            ''https://storefront-api.fourthwall.com/api/public/v1.0/collections''),
      \<lparr>fetched =
         [\<lparr>req_url = ''https://storefront-api.fourthwall.com/api/public/v1.0/collections?storefront_token=tok'',
           req_init = \<lparr>http_method = Some ''GET'', cache = None,
                       headers = [(''Content-Type'', ''application/json'')], init_body = None\<rparr>\<rparr>],
       warned = []\<rparr>)
   \<and> fst (getCollectionProducts (sample_runtime offline) sample_reshapeProducts ''hats'' ''USD'' None fresh_world) =
       Inl (ErrorUrl (TypeError ''fetch failed'')
             ''https://storefront-api.fourthwall.com/v1/collections/hats/products'')
   \<and> fst (getProduct (sample_runtime offline) (Some \<circ> Suc) ''mug'' ''USD'' fresh_world) =
       Inl (ErrorUrl (TypeError ''fetch failed'') ''https://storefront-api.fourthwall.com/v1/products/mug'')
   \<and> fst (getCart (sample_runtime offline) Suc (Some ''cart1'') ''USD'' fresh_world) =
       Inl (ErrorUrl (TypeError ''fetch failed'') ''https://storefront-api.fourthwall.com/v1/carts/cart1'')
   \<and> fst (createCart (sample_runtime offline) Suc fresh_world) =
       Inl (ErrorUrlData (TypeError ''fetch failed'') ''https://storefront-api.fourthwall.com/v1/carts''
             (JObj [(''items'', JArr [])]))
   \<and> fst (addToCart (sample_runtime offline) Suc ''cart1''
            [\<lparr>merchandiseId = ''v1'', quantity = 2\<rparr>] fresh_world) =
       Inl (ErrorUrlData (TypeError ''fetch failed'')
             ''https://storefront-api.fourthwall.com/v1/carts/cart1/add''
             (JObj [(''items'', JArr [JObj [(''variantId'', JStr ''v1''), (''quantity'', JNum 2)]])]))
   \<and> fst (removeFromCart (sample_runtime offline) Suc ''cart1'' [''v1'', ''v2''] fresh_world) =
       Inl (ErrorUrlData (TypeError ''fetch failed'')
             ''https://storefront-api.fourthwall.com/v1/carts/cart1/remove''
             (JObj [(''items'', JArr [JObj [(''variantId'', JStr ''v1'')], JObj [(''variantId'', JStr ''v2'')]])]))
   \<and> updateCart (sample_runtime offline) Suc ''cart1''
            [\<lparr>merchandiseId = ''v1'', quantity = 0, id_line = ''l1''\<rparr>] fresh_world =
       (Inl (ErrorUrlData (TypeError ''fetch failed'')
              ''https://storefront-api.fourthwall.com/v1/carts/cart1/change''
              (JObj [(''items'', JArr [JObj [(''variantId'', JStr ''v1''), (''quantity'', JNum 0)]])])),
        \<lparr>fetched =
           [\<lparr>req_url = ''https://storefront-api.fourthwall.com/v1/carts/cart1/change?storefront_token=tok'',
             req_init = \<lparr>http_method = Some ''POST'', cache = Some ''no-store'',
                         headers = [(''Content-Type'', ''application/json'')],
                         init_body = Some (sample_stringify
                           (JObj [(''items'', JArr [JObj [(''variantId'', JStr ''v1''),
                                                           (''quantity'', JNum 0)]])]))\<rparr>\<rparr>],
         warned = []\<rparr>)
   \<and> fst (getProduct (sample_runtime garbled) (Some \<circ> Suc) ''mug'' ''USD'' fresh_world) =
       Inl (ErrorUrl (SyntaxError ''Unexpected token <'')
             ''https://storefront-api.fourthwall.com/v1/products/mug'')
   \<and> fst (createCart (sample_runtime garbled) Suc fresh_world) =
       Inl (ErrorUrlData (SyntaxError ''Unexpected token <'')
             ''https://storefront-api.fourthwall.com/v1/carts'' (JObj [(''items'', JArr [])]))"
  using
    transport_failure_is_thrown [where e = "TypeError ''fetch failed''" and w = fresh_world
      and rtC = "sample_runtime offline :: FourthwallCollection list listing runtime"
      and pC = "\<lparr>components = ''https://storefront-api.fourthwall.com/api/public/v1.0/collections'',
                 searchParams = []\<rparr>"
      and rtL = "sample_runtime offline" and reshapeProducts = sample_reshapeProducts
      and collection = "''hats''" and currency = "''USD''" and limit = None
      and pL = "\<lparr>components = ''https://storefront-api.fourthwall.com/v1/collections/hats/products'',
                 searchParams = []\<rparr>"
      and rtP = "sample_runtime offline" and reshapeProduct = "Some \<circ> Suc" and handle' = "''mug''"
      and pP = "\<lparr>components = ''https://storefront-api.fourthwall.com/v1/products/mug'',
                 searchParams = []\<rparr>"
      and rtK = "sample_runtime offline" and reshapeCartK = Suc and cartId = "''cart1''"
      and pK = "\<lparr>components = ''https://storefront-api.fourthwall.com/v1/carts/cart1'',
                 searchParams = []\<rparr>"
      and rtN = "sample_runtime offline" and reshapeCartN = Suc
      and rtA = "sample_runtime offline" and reshapeCartA = Suc
      and lines = "[\<lparr>merchandiseId = ''v1'', quantity = 2\<rparr>]"
      and rtR = "sample_runtime offline" and reshapeCartR = Suc and lineIds = "[''v1'', ''v2'']"
      and rtU = "sample_runtime offline" and reshapeCartU = Suc
      and ulines = "[\<lparr>merchandiseId = ''v1'', quantity = 0, id_line = ''l1''\<rparr>]"]
    transport_failure_is_thrown [where e = "SyntaxError ''Unexpected token <''" and w = fresh_world
      and rtC = "sample_runtime garbled :: FourthwallCollection list listing runtime"
      and pC = "\<lparr>components = ''https://storefront-api.fourthwall.com/api/public/v1.0/collections'',
                 searchParams = []\<rparr>"
      and rtL = "sample_runtime garbled" and reshapeProducts = sample_reshapeProducts
      and collection = "''hats''" and currency = "''USD''" and limit = None
      and pL = "\<lparr>components = ''https://storefront-api.fourthwall.com/v1/collections/hats/products'',
                 searchParams = []\<rparr>"
      and rtP = "sample_runtime garbled" and reshapeProduct = "Some \<circ> Suc" and handle' = "''mug''"
      and pP = "\<lparr>components = ''https://storefront-api.fourthwall.com/v1/products/mug'',
                 searchParams = []\<rparr>"
      and rtK = "sample_runtime garbled" and reshapeCartK = Suc and cartId = "''cart1''"
      and pK = "\<lparr>components = ''https://storefront-api.fourthwall.com/v1/carts/cart1'',
                 searchParams = []\<rparr>"
      and rtN = "sample_runtime garbled" and reshapeCartN = Suc
      and rtA = "sample_runtime garbled" and reshapeCartA = Suc
      and lines = "[\<lparr>merchandiseId = ''v1'', quantity = 2\<rparr>]"
      and rtR = "sample_runtime garbled" and reshapeCartR = Suc and lineIds = "[''v1'', ''v2'']"
      and rtU = "sample_runtime garbled" and reshapeCartU = Suc
      and ulines = "[\<lparr>merchandiseId = ''v1'', quantity = 0, id_line = ''l1''\<rparr>]"]
  by (simp add: sample_runtime_def sample_URL_new_def sample_URL_toString_def API_URL_def
      STOREFRONT_TOKEN_def or_default_def fresh_world_def fails_with_def offline_def garbled_def
      get_request_def post_request_def Let_def searchParams_append_def empty_init_def spread_Nil
      index_query_def toString_def)

end
